theory Spec2Isabelle
  imports Complex_Main "HOL-Library.Sublist"
begin

section \<open>Text, errors and files\<close>

text \<open>
  A Python \<open>str\<close> is a sequence of Unicode code points; a line of the CSV file is held
  as the list of its code points, line terminator included (the file is opened with
  \<open>newline=''\<close>, so terminators reach the program untranslated). Identifiers, URLs
  and messages, whose bytes no code counts, are plain \<open>string\<close>s.
\<close>

type_synonym pystr = "nat list"

text \<open>\<open>len(s.encode('utf-8'))\<close>: one to four bytes for each code point.\<close>

definition cp_len :: "nat \<Rightarrow> int" where
  "cp_len c = (if c < 0x80 then 1 else if c < 0x800 then 2 else if c < 0x10000 then 3 else 4)"

definition utf8_len :: "pystr \<Rightarrow> int" where
  "utf8_len s = sum_list (map cp_len s)"

definition ascii :: "string \<Rightarrow> pystr" where
  "ascii s = map of_char s"

text \<open>
  The exceptions the code raises or lets through. \<open>TimeoutError\<close> carries the job id and
  the timeout its message is formatted from; \<open>ApiException\<close> stands for any failure of a
  backend or transport call.
\<close>

datatype error =
    FileNotFoundError string
  | ValueError string
  | RuntimeError string
  | IndexError string
  | ZeroDivisionError string
  | HTTPError int
  | TimeoutError string int
  | ApiException string
  | Exception string

section \<open>CSVFileSplitter\<close>

record CSVFileSplitter =
  chunk_size :: int
  temp_dir :: "string option"

text \<open>
  \<open>__init__\<close>, and \<open>__enter__\<close>: \<open>mkdtemp(prefix='csv_split_')\<close> creates a directory
  whose name is the prefix followed by characters of its choice.
\<close>

definition CSVFileSplitter_init :: "int \<Rightarrow> CSVFileSplitter" where
  "CSVFileSplitter_init cs = \<lparr>chunk_size = cs, temp_dir = None\<rparr>"

definition enter :: "string \<Rightarrow> CSVFileSplitter \<Rightarrow> CSVFileSplitter" where
  "enter sfx sp = sp\<lparr>temp_dir := Some (''csv_split_'' @ sfx)\<rparr>"

text \<open>
  What a part file holds: the strings written to it, in order, each tagged with the
  statement that wrote it (\<open>write(header)\<close> at line 66, \<open>write(row)\<close> at line 84).
  The text of the file is the strings without the tags.
\<close>

datatype written = HeaderLine pystr | RowLine pystr

fun text_of :: "written \<Rightarrow> pystr" where
  "text_of (HeaderLine s) = s"
| "text_of (RowLine s) = s"

fun is_row :: "written \<Rightarrow> bool" where
  "is_row (HeaderLine s) = False"
| "is_row (RowLine s) = True"

text \<open>
  A yielded pair \<open>(temp_file_path, part_number)\<close>. The path is \<open>part_<n>.csv\<close> in the
  temporary directory, a different file for each part number; the record holds what
  that file contains when it is yielded (the writer is closed before the \<open>yield\<close>).
\<close>

record part =
  part_number :: int
  written_lines :: "written list"

definition file_lines :: "part \<Rightarrow> pystr list" where
  "file_lines p = map text_of (written_lines p)"

definition data_rows :: "part \<Rightarrow> pystr list" where
  "data_rows p = map text_of (filter is_row (written_lines p))"

text \<open>The local variables of \<open>split_file\<close>, with the parts yielded so far.\<close>

record split_state =
  current_part :: int
  current_size :: int
  current_file :: "written list"
  yielded :: "part list"

text \<open>One pass through the body of the \<open>for row in f\<close> loop (lines 71 to 85).\<close>

definition process_row :: "int \<Rightarrow> int \<Rightarrow> int \<Rightarrow> split_state \<Rightarrow> pystr \<Rightarrow> split_state" where
  "process_row cs num_parts header_size s row =
     (let row_size = utf8_len row;
          s1 = (if current_size s + row_size > cs \<and> current_part s < num_parts
                then \<lparr>current_part = current_part s + 1,
                      current_size = header_size,
                      current_file = [],
                      yielded = yielded s @
                        [\<lparr>part_number = current_part s, written_lines = current_file s\<rparr>]\<rparr>
                else s)
      in s1\<lparr>current_file := current_file s1 @ [RowLine row],
            current_size := current_size s1 + row_size\<rparr>)"

definition first_part :: "pystr \<Rightarrow> split_state" where
  "first_part header =
     \<lparr>current_part = 1, current_size = utf8_len header,
      current_file = [HeaderLine header], yielded = []\<rparr>"

definition finish :: "split_state \<Rightarrow> part list" where
  "finish s = yielded s @ [\<lparr>part_number = current_part s, written_lines = current_file s\<rparr>]"

text \<open>The state after the header and the given rows have been read (lines 60 to 85).\<close>

definition split_rows :: "int \<Rightarrow> int \<Rightarrow> pystr \<Rightarrow> pystr list \<Rightarrow> split_state" where
  "split_rows cs num_parts header rows =
     foldl (process_row cs num_parts (utf8_len header)) (first_part header) rows"

text \<open>
  \<open>split_file\<close>, on the lines of the source file. The generator is run to its end and
  the parts are returned in yield order. \<open>next(f)\<close> on a file with no line raises
  \<open>StopIteration\<close>, which the \<open>except\<close> clause re-raises inside the generator, where
  Python turns it into a \<open>RuntimeError\<close>; this happens before anything is yielded.
\<close>

definition split_file :: "CSVFileSplitter \<Rightarrow> pystr list \<Rightarrow> int \<Rightarrow> error + part list" where
  "split_file sp f num_parts =
     (if temp_dir sp = None \<or> temp_dir sp = Some []
      then Inl (RuntimeError ''CSVFileSplitter must be used as a context manager'')
      else case f of
             [] \<Rightarrow> Inl (RuntimeError ''generator raised StopIteration'')
           | header # rows \<Rightarrow>
               Inr (finish (split_rows (chunk_size sp) num_parts header rows)))"

text \<open>
  Python list indexing, \<open>xs[i]\<close>: a negative index counts from the end, an index out
  of range raises \<open>IndexError\<close>.
\<close>

definition list_index :: "'a list \<Rightarrow> int \<Rightarrow> error + 'a" where
  "list_index xs i =
     (if 0 \<le> i \<and> i < int (length xs) then Inr (xs ! nat i)
      else if i < 0 \<and> - int (length xs) \<le> i then Inr (xs ! nat (int (length xs) + i))
      else Inl (IndexError ''list index out of range''))"

section \<open>The backend and the trace of calls\<close>

text \<open>
  The generated API client, \<open>requests\<close> and the clock are outside the repository.
  Each is a function from the arguments of a call to its outcome, an exception being
  \<open>Inl\<close>; the status of a job and the clock are read repeatedly, so they answer by
  the number of reads made before. Every call is appended to a trace, which is kept
  when an exception is raised.
\<close>

type_synonym csv_options = "(string \<times> string) list"

record upload_instance =
  instance_id :: string
  upload_id :: string
  upload_url_encoded :: string
  upload_urls_encoded :: "string list"
  links :: "(string \<times> string) list list option"

record http_response =
  status_code :: int
  etag_header :: "string option"

text \<open>
  The body of a PUT: the bytes of a file as it is, or \<open>gzip.compress\<close> of them. The
  headers are a fixed content type and the length of the body.
\<close>

datatype body = RawFile "pystr list" | GzipCompressed "pystr list"

record part_etag =
  eTag :: string
  partNumber :: int

record complete_request =
  request_id :: string
  uploadId :: string
  partETags :: "part_etag list"

record data_pull_request =
  dataset :: string
  mode :: string
  request_type :: string
  upload :: "string option"
  csvOptions :: csv_options

record data_pull_job_request =
  job_type :: string
  projectId :: string
  content :: data_pull_request

record job_detail =
  job_id :: string

record job_status =
  status :: string
  message :: "string option"

datatype event =
    DataUpload string "int option"
  | Put string body
  | CompleteMultipartUpload string string complete_request
  | SubmitJobExecution data_pull_job_request
  | GetJobStatus string string
  | Sleep int

record backend =
  data_upload :: "string \<Rightarrow> int option \<Rightarrow> error + upload_instance"
  requests_put :: "string \<Rightarrow> body \<Rightarrow> error + http_response"
  complete_multipart_upload :: "string \<Rightarrow> string \<Rightarrow> complete_request \<Rightarrow> error + unit"
  submit_job_execution :: "data_pull_job_request \<Rightarrow> error + job_detail"
  get_job_status :: "string \<Rightarrow> nat \<Rightarrow> error + job_status"
  time_time :: "nat \<Rightarrow> real"
  mkdtemp_suffix :: string

record world =
  events :: "event list"
  fetches :: nat
  clock_reads :: nat

definition log_event :: "event \<Rightarrow> world \<Rightarrow> world" where
  "log_event e w = w\<lparr>events := events w @ [e]\<rparr>"

section \<open>LoadDataClient\<close>

record LoadDataClient =
  client_chunk_size :: int
  target_part_size :: int
  content_type :: string

definition LoadDataClient_init :: "int \<Rightarrow> LoadDataClient" where
  "LoadDataClient_init cs =
     \<lparr>client_chunk_size = cs, target_part_size = 20 * 1024 * 1024,
      content_type = ''text/csv; charset=utf-8''\<rparr>"

text \<open>\<open>response.raise_for_status()\<close> raises for the status codes 400 to 599.\<close>

definition raise_for_status :: "http_response \<Rightarrow> error + unit" where
  "raise_for_status response =
     (if 400 \<le> status_code response \<and> status_code response < 600
      then Inl (HTTPError (status_code response)) else Inr ())"

definition upload_file :: "backend \<Rightarrow> string \<Rightarrow> pystr list \<Rightarrow> world \<Rightarrow> (error + unit) \<times> world" where
  "upload_file env url f w =
     (let w1 = log_event (Put url (RawFile f)) w
      in case requests_put env url (RawFile f) of
           Inl e \<Rightarrow> (Inl e, w1)
         | Inr response \<Rightarrow> (raise_for_status response, w1))"

definition upload_part :: "backend \<Rightarrow> string \<Rightarrow> pystr list \<Rightarrow> world \<Rightarrow> (error + string) \<times> world" where
  "upload_part env url f w =
     (let w1 = log_event (Put url (GzipCompressed f)) w
      in case requests_put env url (GzipCompressed f) of
           Inl e \<Rightarrow> (Inl e, w1)
         | Inr response \<Rightarrow>
             (case raise_for_status response of
                Inl e \<Rightarrow> (Inl e, w1)
              | Inr _ \<Rightarrow>
                  (case etag_header response of
                     None \<Rightarrow> (Inl (ValueError ''No ETag received in response''), w1)
                   | Some etag \<Rightarrow>
                       if etag = [] then (Inl (ValueError ''No ETag received in response''), w1)
                       else (Inr etag, w1))))"

text \<open>
  \<open>_get_file_uri_from_response\<close>: the \<open>href\<close> of the first link whose \<open>rel\<close> is
  \<open>self\<close>; \<open>link.get\<close> gives \<open>None\<close> for a missing key.
\<close>

definition get_file_uri_from_response :: "upload_instance \<Rightarrow> error + string option" where
  "get_file_uri_from_response response =
     (case links response of
        None \<Rightarrow> Inl (Exception ''No links found in response'')
      | Some ls \<Rightarrow>
          (case find (\<lambda>link. map_of link ''rel'' = Some ''self'') ls of
             None \<Rightarrow> Inl (Exception ''No file URI found in response'')
           | Some link \<Rightarrow>
               if map_of link ''href'' = Some []
               then Inl (Exception ''No file URI found in response'')
               else Inr (map_of link ''href'')))"

definition create_data_pull_job_request ::
  "string \<Rightarrow> string \<Rightarrow> string \<Rightarrow> string option \<Rightarrow> csv_options \<Rightarrow> data_pull_job_request" where
  "create_data_pull_job_request project_id dataset_name md upload_link csv_opts =
     \<lparr>job_type = ''dataPull'', projectId = project_id,
      content = \<lparr>dataset = dataset_name, mode = md, request_type = ''csv'',
                 upload = upload_link, csvOptions = csv_opts\<rparr>\<rparr>"

definition submit_data_pull_request ::
  "backend \<Rightarrow> data_pull_job_request \<Rightarrow> world \<Rightarrow> (error + job_detail) \<times> world" where
  "submit_data_pull_request env job_request w =
     (submit_job_execution env job_request, log_event (SubmitJobExecution job_request) w)"

definition single_part_upload ::
  "backend \<Rightarrow> string \<Rightarrow> pystr list \<Rightarrow> string \<Rightarrow> string \<Rightarrow> csv_options \<Rightarrow> world
     \<Rightarrow> (error + job_detail) \<times> world" where
  "single_part_upload env project_id f dataset_name md csv_opts w =
     (let w1 = log_event (DataUpload project_id None) w
      in case data_upload env project_id None of
           Inl e \<Rightarrow> (Inl e, w1)
         | Inr upload_response \<Rightarrow>
             (case upload_file env (upload_url_encoded upload_response) f w1 of
                (Inl e, w2) \<Rightarrow> (Inl e, w2)
              | (Inr _, w2) \<Rightarrow>
                  (case get_file_uri_from_response upload_response of
                     Inl e \<Rightarrow> (Inl e, w2)
                   | Inr file_uri \<Rightarrow>
                       submit_data_pull_request env
                         (create_data_pull_job_request project_id dataset_name md file_uri csv_opts)
                         w2)))"

text \<open>
  The \<open>for\<close> loop of \<open>_multipart_upload\<close> over the yielded parts (lines 195 to 205):
  the URL is looked up, the part uploaded and its tag appended; the first exception
  ends the loop.
\<close>

fun upload_parts ::
  "backend \<Rightarrow> string list \<Rightarrow> part list \<Rightarrow> part_etag list \<Rightarrow> world
     \<Rightarrow> (error + part_etag list) \<times> world" where
  "upload_parts env upload_urls [] uploaded_parts w = (Inr uploaded_parts, w)"
| "upload_parts env upload_urls (p # ps) uploaded_parts w =
     (case list_index upload_urls (part_number p - 1) of
        Inl e \<Rightarrow> (Inl e, w)
      | Inr url \<Rightarrow>
          (case upload_part env url (file_lines p) w of
             (Inl e, w1) \<Rightarrow> (Inl e, w1)
           | (Inr etag, w1) \<Rightarrow>
               upload_parts env upload_urls ps
                 (uploaded_parts @ [\<lparr>eTag = etag, partNumber = part_number p\<rparr>]) w1))"

text \<open>
  \<open>_multipart_upload\<close>. The splitter is a generator, consumed one part at a time by
  the loop; it makes no backend call and can only raise before its first part, so the
  parts are taken from it at once and then uploaded in order. Leaving the \<open>with\<close>
  block removes the temporary files, on every path, and calls nothing.
\<close>

definition multipart_upload ::
  "LoadDataClient \<Rightarrow> backend \<Rightarrow> string \<Rightarrow> pystr list \<Rightarrow> int \<Rightarrow> string \<Rightarrow> string \<Rightarrow> csv_options
     \<Rightarrow> world \<Rightarrow> (error + job_detail) \<times> world" where
  "multipart_upload c env project_id f parts dataset_name md csv_opts w =
     (let w1 = log_event (DataUpload project_id (Some parts)) w
      in case data_upload env project_id (Some parts) of
           Inl e \<Rightarrow> (Inl e, w1)
         | Inr upload_response \<Rightarrow>
             (let upload_urls = upload_urls_encoded upload_response;
                  splitter = enter (mkdtemp_suffix env) (CSVFileSplitter_init (client_chunk_size c))
              in case split_file splitter f parts of
                   Inl e \<Rightarrow> (Inl e, w1)
                 | Inr ps \<Rightarrow>
                     (case upload_parts env upload_urls ps [] w1 of
                        (Inl e, w2) \<Rightarrow> (Inl e, w2)
                      | (Inr uploaded_parts, w2) \<Rightarrow>
                          (let complete_req =
                                 \<lparr>request_id = instance_id upload_response,
                                  uploadId = upload_id upload_response,
                                  partETags = uploaded_parts\<rparr>;
                               w3 = log_event (CompleteMultipartUpload project_id
                                      (instance_id upload_response) complete_req) w2
                           in case complete_multipart_upload env project_id
                                     (instance_id upload_response) complete_req of
                                Inl e \<Rightarrow> (Inl e, w3)
                              | Inr _ \<Rightarrow>
                                  (case get_file_uri_from_response upload_response of
                                     Inl e \<Rightarrow> (Inl e, w3)
                                   | Inr file_uri \<Rightarrow>
                                       submit_data_pull_request env
                                         (create_data_pull_job_request project_id dataset_name md
                                            file_uri csv_opts)
                                         w3)))))"

section \<open>Polling\<close>

text \<open>
  The timeout check of line 349: \<open>if timeout and ...\<close> reads the clock only when the
  timeout is neither \<open>None\<close> nor 0.
\<close>

definition check_timeout ::
  "backend \<Rightarrow> string \<Rightarrow> int option \<Rightarrow> real \<Rightarrow> world \<Rightarrow> (error + unit) \<times> world" where
  "check_timeout env jid timeout start_time w =
     (case timeout of
        None \<Rightarrow> (Inr (), w)
      | Some t \<Rightarrow>
          if t = 0 then (Inr (), w)
          else (let now = time_time env (clock_reads w);
                    w1 = w\<lparr>clock_reads := Suc (clock_reads w)\<rparr>
                in if now - start_time > real_of_int t
                   then (Inl (TimeoutError jid t), w1) else (Inr (), w1)))"

text \<open>\<open>time.sleep\<close> raises \<open>ValueError\<close> for a negative length.\<close>

definition sleep :: "int \<Rightarrow> world \<Rightarrow> (error + unit) \<times> world" where
  "sleep secs w =
     (if secs < 0 then (Inl (ValueError ''sleep length must be non-negative''), w)
      else (Inr (), log_event (Sleep secs) w))"

text \<open>
  The \<open>while True\<close> loop of \<open>poll_job_status\<close>. It may run forever, which is the
  value \<open>None\<close>.
\<close>

partial_function (option) poll_loop ::
  "backend \<Rightarrow> string \<Rightarrow> int \<Rightarrow> int option \<Rightarrow> real \<Rightarrow> world \<Rightarrow> ((error + bool) \<times> world) option" where
  "poll_loop env jid poll_interval timeout start_time w =
     (let w1 = (log_event (GetJobStatus jid ''dataPull'') w)\<lparr>fetches := Suc (fetches w)\<rparr>
      in case get_job_status env jid (fetches w) of
           Inl e \<Rightarrow> Some (Inl e, w1)
         | Inr js \<Rightarrow>
             if status js = ''SUCCEEDED'' then Some (Inr True, w1)
             else if status js = ''FAILED'' then Some (Inr False, w1)
             else (case check_timeout env jid timeout start_time w1 of
                     (Inl e, w2) \<Rightarrow> Some (Inl e, w2)
                   | (Inr _, w2) \<Rightarrow>
                       (case sleep poll_interval w2 of
                          (Inl e, w3) \<Rightarrow> Some (Inl e, w3)
                        | (Inr _, w3) \<Rightarrow> poll_loop env jid poll_interval timeout start_time w3)))"

definition poll_job_status ::
  "backend \<Rightarrow> string \<Rightarrow> int \<Rightarrow> int option \<Rightarrow> world \<Rightarrow> ((error + bool) \<times> world) option" where
  "poll_job_status env jid poll_interval timeout w =
     (let start_time = time_time env (clock_reads w);
          w1 = w\<lparr>clock_reads := Suc (clock_reads w)\<rparr>
      in poll_loop env jid poll_interval timeout start_time w1)"

section \<open>upload\_data\<close>

text \<open>\<open>os.path.getsize\<close>: the file is UTF-8 text, its size the bytes of its lines.\<close>

definition getsize :: "pystr list \<Rightarrow> int" where
  "getsize f = sum_list (map utf8_len f)"

text \<open>Lines 95 to 100: the wait for the job, applied to the outcome of the upload.\<close>

definition wait_for_job ::
  "backend \<Rightarrow> bool \<Rightarrow> (error + job_detail) \<times> world \<Rightarrow> ((error + job_detail) \<times> world) option" where
  "wait_for_job env poll_job r =
     (case r of
        (Inl e, w) \<Rightarrow> Some (Inl e, w)
      | (Inr job_response, w) \<Rightarrow>
          if poll_job
          then (case poll_job_status env (job_id job_response) 5 None w of
                  None \<Rightarrow> None
                | Some (Inl e, w1) \<Rightarrow> Some (Inl e, w1)
                | Some (Inr success, w1) \<Rightarrow>
                    if \<not> success
                    then Some (Inl (Exception (''Job '' @ job_id job_response @ '' failed'')), w1)
                    else Some (Inr job_response, w1))
          else Some (Inr job_response, w))"

text \<open>
  Lines 81 to 92 of \<open>upload_data\<close>: the choice between the two paths by the size of
  the file. \<open>//\<close> is floor division, as \<open>div\<close> on \<open>int\<close> is, and raises for a
  zero divisor.
\<close>

definition upload_by_size ::
  "LoadDataClient \<Rightarrow> backend \<Rightarrow> string \<Rightarrow> pystr list \<Rightarrow> string \<Rightarrow> string \<Rightarrow> csv_options \<Rightarrow> world
     \<Rightarrow> (error + job_detail) \<times> world" where
  "upload_by_size c env project_id f dataset_name md csv_opts w =
     (let file_size = getsize f
      in if file_size \<le> client_chunk_size c
         then single_part_upload env project_id f dataset_name md csv_opts w
         else if target_part_size c = 0
         then (Inl (ZeroDivisionError ''integer division or modulo by zero''), w)
         else (let parts = (file_size + target_part_size c - 1) div target_part_size c
               in multipart_upload c env project_id f parts dataset_name md csv_opts w))"

text \<open>
  \<open>upload_data\<close>. The file is \<open>None\<close> when the path does not exist, otherwise its
  lines.
\<close>

definition upload_data ::
  "LoadDataClient \<Rightarrow> backend \<Rightarrow> string \<Rightarrow> pystr list option \<Rightarrow> string \<Rightarrow> string \<Rightarrow> bool
     \<Rightarrow> csv_options \<Rightarrow> world \<Rightarrow> ((error + job_detail) \<times> world) option" where
  "upload_data c env project_id csv_file dataset_name md poll_job csv_opts w =
     (case csv_file of
        None \<Rightarrow> Some (Inl (FileNotFoundError ''CSV file not found''), w)
      | Some f \<Rightarrow>
          if md \<noteq> ''full'' \<and> md \<noteq> ''incremental''
          then Some (Inl (ValueError
                 ''Invalid data loading mode. Must be 'full' or 'incremental'.''), w)
          else wait_for_job env poll_job
                 (upload_by_size c env project_id f dataset_name md csv_opts w))"

section \<open>Auxiliary notions for the proofs\<close>

text \<open>Everything written so far, over all parts, in the order of writing.\<close>

definition all_written :: "split_state \<Rightarrow> written list" where
  "all_written s = concat (map written_lines (yielded s)) @ current_file s"

text \<open>The parts yielded so far are numbered from 1 up to the part before the open one.\<close>

definition numbered :: "split_state \<Rightarrow> bool" where
  "numbered s \<longleftrightarrow> 1 \<le> current_part s \<and> map part_number (yielded s) = [1 .. current_part s - 1]"




definition new_world :: world where
  "new_world = \<lparr>events = [], fetches = 0, clock_reads = 0\<rparr>"


text \<open>The world after one status fetch, and after the sleep that follows it.\<close>

definition after_fetch :: "string \<Rightarrow> world \<Rightarrow> world" where
  "after_fetch jid w = (log_event (GetJobStatus jid ''dataPull'') w)\<lparr>fetches := Suc (fetches w)\<rparr>"

definition after_wait :: "string \<Rightarrow> int \<Rightarrow> world \<Rightarrow> world" where
  "after_wait jid poll_interval w = log_event (Sleep poll_interval) (after_fetch jid w)"

text \<open>A status that ends the polling: \<open>SUCCEEDED\<close> or \<open>FAILED\<close>.\<close>

definition terminal :: "job_status \<Rightarrow> bool" where
  "terminal js \<longleftrightarrow> status js = ''SUCCEEDED'' \<or> status js = ''FAILED''"

section \<open>Example data\<close>

text \<open>
  A backend that issues six part URLs, accepts every PUT with a tag made from the
  URL, and reports the job as it is told to.
\<close>

definition store_urls :: "string list" where
  "store_urls = [''https://store/1'', ''https://store/2'', ''https://store/3'',
                 ''https://store/4'', ''https://store/5'', ''https://store/6'']"

definition store_instance :: upload_instance where
  "store_instance =
     \<lparr>instance_id = ''u1'', upload_id = ''m1'', upload_url_encoded = ''https://store/0'',
      upload_urls_encoded = store_urls,
      links = Some [[(''rel'', ''self''), (''href'', ''/uploads/u1'')]]\<rparr>"

definition running :: job_status where
  "running = \<lparr>status = ''RUNNING'', message = None\<rparr>"

definition succeeded :: job_status where
  "succeeded = \<lparr>status = ''SUCCEEDED'', message = None\<rparr>"

definition failed_with :: "string \<Rightarrow> job_status" where
  "failed_with msg = \<lparr>status = ''FAILED'', message = Some msg\<rparr>"

definition always :: "job_status \<Rightarrow> nat \<Rightarrow> job_status" where
  "always js k = js"

definition running_twice :: "nat \<Rightarrow> job_status" where
  "running_twice k = (if k < 2 then running else succeeded)"

definition store_backend :: "(nat \<Rightarrow> job_status) \<Rightarrow> backend" where
  "store_backend statuses =
     \<lparr>data_upload = (\<lambda>project_id parts. Inr store_instance),
      requests_put = (\<lambda>url b. Inr \<lparr>status_code = 200, etag_header = Some (''tag:'' @ url)\<rparr>),
      complete_multipart_upload = (\<lambda>project_id i req. Inr ()),
      submit_job_execution = (\<lambda>req. Inr \<lparr>job_id = ''j1''\<rparr>),
      get_job_status = (\<lambda>jid k. Inr (statuses k)),
      time_time = (\<lambda>k. 5 * real k),
      mkdtemp_suffix = ''0''\<rparr>"


text \<open>
  A file of 120 MiB: a header of 3 bytes, five rows of 20 MiB and a last row of
  20 MiB less 3 bytes.
\<close>

definition long_row :: pystr where
  "long_row = replicate (20 * 1024 * 1024 - 1) 97 @ [10]"

definition last_row :: pystr where
  "last_row = replicate (20 * 1024 * 1024 - 4) 97 @ [10]"

definition file_120MiB :: "pystr list" where
  "file_120MiB = [ascii ''id\<newline>'', long_row, long_row, long_row, long_row, long_row, last_row]"

section \<open>The splitter: what is written, and where\<close>

lemma all_written_process_row:
  "all_written (process_row cs n hs s row) = all_written s @ [RowLine row]"
  by (simp add: all_written_def process_row_def Let_def)

lemma all_written_foldl:
  "all_written (foldl (process_row cs n hs) s rows) = all_written s @ map RowLine rows"
  by (induction rows arbitrary: s) (simp_all add: all_written_process_row)

lemma concat_finish: "concat (map written_lines (finish s)) = all_written s"
  by (simp add: finish_def all_written_def)

lemma written_split_rows:
  "concat (map written_lines (finish (split_rows cs n header rows))) =
     HeaderLine header # map RowLine rows"
  by (simp add: concat_finish split_rows_def all_written_foldl)
     (simp add: all_written_def first_part_def)

lemma concat_file_lines:
  "concat (map file_lines ps) = map text_of (concat (map written_lines ps))"
  by (induction ps) (simp_all add: file_lines_def)

lemma concat_data_rows:
  "concat (map data_rows ps) = map text_of (filter is_row (concat (map written_lines ps)))"
  by (induction ps) (simp_all add: data_rows_def)

lemma rows_of_RowLine: "map text_of (filter is_row (map RowLine rows)) = rows"
  by (induction rows) simp_all

lemma text_of_RowLine: "map (text_of \<circ> RowLine) rows = rows"
  by (induction rows) simp_all

subsection \<open>Part numbers\<close>

lemma numbered_process_row: "numbered s \<Longrightarrow> numbered (process_row cs n hs s row)"
  by (auto simp: numbered_def process_row_def Let_def upto_rec2)

lemma numbered_foldl: "numbered s \<Longrightarrow> numbered (foldl (process_row cs n hs) s rows)"
  by (induction rows arbitrary: s) (simp_all add: numbered_process_row)

lemma numbered_first_part: "numbered (first_part header)"
  by (simp add: numbered_def first_part_def)

lemma numbers_finish: "numbered s \<Longrightarrow> map part_number (finish s) = [1 .. current_part s]"
  by (simp add: numbered_def finish_def upto_rec2)

lemma current_part_process_row:
  "current_part s \<le> max 1 n \<Longrightarrow> current_part (process_row cs n hs s row) \<le> max 1 n"
  by (auto simp: process_row_def Let_def)

lemma current_part_foldl:
  "current_part s \<le> max 1 n \<Longrightarrow> current_part (foldl (process_row cs n hs) s rows) \<le> max 1 n"
  by (induction rows arbitrary: s) (simp_all add: current_part_process_row)

lemma part_numbers_split_rows:
  "map part_number (finish (split_rows cs n header rows)) =
     [1 .. current_part (split_rows cs n header rows)]"
  by (simp add: numbers_finish split_rows_def numbered_foldl numbered_first_part)

lemma current_part_split_rows:
  "1 \<le> current_part (split_rows cs n header rows) \<and>
   current_part (split_rows cs n header rows) \<le> max 1 n"
proof -
  have "numbered (split_rows cs n header rows)"
    unfolding split_rows_def by (rule numbered_foldl) (rule numbered_first_part)
  moreover have "current_part (split_rows cs n header rows) \<le> max 1 n"
    unfolding split_rows_def by (rule current_part_foldl) (simp add: first_part_def)
  ultimately show ?thesis by (simp add: numbered_def)
qed

lemma length_finish_split_rows:
  "int (length (finish (split_rows cs n header rows))) = current_part (split_rows cs n header rows)"
proof -
  have "length (map part_number (finish (split_rows cs n header rows))) =
        nat (current_part (split_rows cs n header rows))"
    by (simp only: part_numbers_split_rows) simp
  with current_part_split_rows [of cs n header rows] show ?thesis by simp
qed

subsection \<open>The size counter and the last part\<close>







subsection \<open>A run on a small file\<close>

text \<open>
  A header of 3 bytes and two rows of 8 bytes, a budget of 12 bytes and two parts
  asked for: the first row fits beside the header (11 bytes), the second does not
  (19 bytes) and opens part 2.
\<close>

lemma split_small_file:
  "split_file (enter ''0'' (CSVFileSplitter_init 12))
     [ascii ''id\<newline>'', ascii ''aaaaaaa\<newline>'', ascii ''bbbbbbb\<newline>''] 2 =
   Inr [\<lparr>part_number = 1,
         written_lines = [HeaderLine (ascii ''id\<newline>''), RowLine (ascii ''aaaaaaa\<newline>'')]\<rparr>,
        \<lparr>part_number = 2, written_lines = [RowLine (ascii ''bbbbbbb\<newline>'')]\<rparr>]"
  by (simp add: split_file_def enter_def CSVFileSplitter_init_def split_rows_def first_part_def
      process_row_def finish_def ascii_def utf8_len_def cp_len_def Let_def)


section \<open>Claims about the splitter\<close>

text \<open>
  Claim C1: every part yielded by \<open>split_file\<close> begins with the header, the parts after
  the first included. The code does not do this: when it opens a further part it sets
  \<open>current_size\<close> to the size of the header (line 82) but, unlike line 66 for the first
  part, writes no header. On the small file above, part 2 is yielded holding only the
  second row, so its first line is that row and not the header.
\<close>

theorem later_part_lacks_header:
  "split_file (enter ''0'' (CSVFileSplitter_init 12))
     [ascii ''id\<newline>'', ascii ''aaaaaaa\<newline>'', ascii ''bbbbbbb\<newline>''] 2 =
   Inr [\<lparr>part_number = 1,
         written_lines = [HeaderLine (ascii ''id\<newline>''), RowLine (ascii ''aaaaaaa\<newline>'')]\<rparr>,
        \<lparr>part_number = 2, written_lines = [RowLine (ascii ''bbbbbbb\<newline>'')]\<rparr>] \<and>
   file_lines \<lparr>part_number = 2, written_lines = [RowLine (ascii ''bbbbbbb\<newline>'')]\<rparr> =
     [ascii ''bbbbbbb\<newline>''] \<and>
   hd (file_lines \<lparr>part_number = 2, written_lines = [RowLine (ascii ''bbbbbbb\<newline>'')]\<rparr>) \<noteq>
     ascii ''id\<newline>''"
  by (simp add: split_small_file file_lines_def) (simp add: ascii_def)

text \<open>
  Claim C4: for a source file with at least a header line and a requested part count
  \<open>n \<ge> 1\<close>, \<open>split_file\<close> (on an entered splitter) returns parts whose data rows, the rows
  written by \<open>write(row)\<close>, concatenated in yield order, are the data rows of the source,
  each once, whole and in order; no more than \<open>n\<close> parts are yielded. Moreover all the
  lines of the parts together are the lines of the source, so nothing else is written.
\<close>

theorem split_file_rows_preserved:
  assumes "1 \<le> n"
  shows "\<exists>ps. split_file (enter sfx sp) (header # rows) n = Inr ps \<and>
              concat (map data_rows ps) = rows \<and>
              concat (map file_lines ps) = header # rows \<and>
              int (length ps) \<le> n"
proof -
  let ?s = "split_rows (chunk_size sp) n header rows"
  have ret: "split_file (enter sfx sp) (header # rows) n = Inr (finish ?s)"
    by (simp add: split_file_def enter_def)
  have rows: "concat (map data_rows (finish ?s)) = rows"
    by (simp add: concat_data_rows written_split_rows rows_of_RowLine text_of_RowLine)
  have all: "concat (map file_lines (finish ?s)) = header # rows"
    by (simp add: concat_file_lines written_split_rows text_of_RowLine)
  have "int (length (finish ?s)) \<le> n"
    using current_part_split_rows [of "chunk_size sp" n header rows] assms
    by (simp add: length_finish_split_rows)
  with ret rows all show ?thesis by blast
qed

theorem split_file_rows_preserved_witness:
  "(1::int) \<le> 2 \<and>
   (\<exists>ps. split_file (enter ''0'' (CSVFileSplitter_init 12))
           (ascii ''id\<newline>'' # [ascii ''aaaaaaa\<newline>'', ascii ''bbbbbbb\<newline>'']) 2 = Inr ps \<and>
         concat (map data_rows ps) = [ascii ''aaaaaaa\<newline>'', ascii ''bbbbbbb\<newline>''] \<and>
         concat (map file_lines ps) =
           ascii ''id\<newline>'' # [ascii ''aaaaaaa\<newline>'', ascii ''bbbbbbb\<newline>''] \<and>
         int (length ps) \<le> 2)"
  using split_file_rows_preserved [of 2 "''0''" "CSVFileSplitter_init 12" "ascii ''id\<newline>''"
      "[ascii ''aaaaaaa\<newline>'', ascii ''bbbbbbb\<newline>'']"]
  by simp



text \<open>
  Claim C9: for \<open>n \<ge> 1\<close> the part numbers yielded by \<open>split_file\<close> are \<open>1, 2, ..., k\<close>
  with \<open>1 \<le> k \<le> n\<close>, \<open>k\<close> the number of parts; so for every yielded part the lookup
  \<open>upload_urls[part_number - 1]\<close> is in range, and gives the URL at that position,
  whenever the backend returned at least \<open>n\<close> URLs.
\<close>

theorem part_numbers_consecutive:
  assumes "split_file sp f n = Inr ps" and "1 \<le> n"
  shows "map part_number ps = [1 .. int (length ps)] \<and> 1 \<le> length ps \<and> int (length ps) \<le> n \<and>
         (\<forall>urls p. n \<le> int (length urls) \<longrightarrow> p \<in> set ps \<longrightarrow>
            list_index urls (part_number p - 1) = Inr (urls ! nat (part_number p - 1)))"
proof -
  from assms(1) obtain header rows where f: "f = header # rows"
    and ps: "ps = finish (split_rows (chunk_size sp) n header rows)"
    by (auto simp: split_file_def split: if_splits list.splits)
  let ?s = "split_rows (chunk_size sp) n header rows"
  have len: "int (length ps) = current_part ?s"
    by (simp add: ps length_finish_split_rows)
  have nums: "map part_number ps = [1 .. int (length ps)]"
    by (simp only: len) (simp add: ps part_numbers_split_rows)
  have bounds: "1 \<le> int (length ps)" "int (length ps) \<le> n"
    using current_part_split_rows [of "chunk_size sp" n header rows] assms(2) len by simp_all
  have idx: "list_index urls (part_number p - 1) = Inr (urls ! nat (part_number p - 1))"
    if "n \<le> int (length urls)" and "p \<in> set ps" for urls :: "'a list" and p
  proof -
    from that(2) have "part_number p \<in> set (map part_number ps)" by simp
    then have "1 \<le> part_number p \<and> part_number p \<le> int (length ps)"
      by (simp only: nums) simp
    with bounds that(1) show ?thesis by (simp add: list_index_def)
  qed
  from nums bounds idx show ?thesis by simp
qed

theorem part_numbers_consecutive_witness:
  "(1::int) \<le> 2 \<and>
   split_file (enter ''0'' (CSVFileSplitter_init 12))
     [ascii ''id\<newline>'', ascii ''aaaaaaa\<newline>'', ascii ''bbbbbbb\<newline>''] 2 =
   Inr [\<lparr>part_number = 1,
         written_lines = [HeaderLine (ascii ''id\<newline>''), RowLine (ascii ''aaaaaaa\<newline>'')]\<rparr>,
        \<lparr>part_number = 2, written_lines = [RowLine (ascii ''bbbbbbb\<newline>'')]\<rparr>] \<and>
   map part_number
     [\<lparr>part_number = 1,
         written_lines = [HeaderLine (ascii ''id\<newline>''), RowLine (ascii ''aaaaaaa\<newline>'')]\<rparr>,
      \<lparr>part_number = 2, written_lines = [RowLine (ascii ''bbbbbbb\<newline>'')]\<rparr>] = [1 .. int 2] \<and>
   list_index [''https://store/1'', ''https://store/2'']
     (part_number \<lparr>part_number = 2, written_lines = [RowLine (ascii ''bbbbbbb\<newline>'')]\<rparr> - 1) =
     Inr ''https://store/2''"
proof -
  let ?p1 = "\<lparr>part_number = 1,
         written_lines = [HeaderLine (ascii ''id\<newline>''), RowLine (ascii ''aaaaaaa\<newline>'')]\<rparr>"
  let ?p2 = "\<lparr>part_number = 2, written_lines = [RowLine (ascii ''bbbbbbb\<newline>'')]\<rparr>"
  let ?urls = "[''https://store/1'', ''https://store/2'']"
  have n: "(1::int) \<le> 2" by simp
  note r = part_numbers_consecutive [OF split_small_file n]
  from r have "map part_number [?p1, ?p2] = [1 .. int (length [?p1, ?p2])]"
    by (rule conjunct1)
  then have nums: "map part_number [?p1, ?p2] = [1 .. int 2]"
    by (simp only: list.size) simp
  from r have "\<forall>urls p. 2 \<le> int (length urls) \<longrightarrow> p \<in> set [?p1, ?p2] \<longrightarrow>
      list_index urls (part_number p - 1) = Inr (urls ! nat (part_number p - 1))"
    by blast
  then have "2 \<le> int (length ?urls) \<longrightarrow> ?p2 \<in> set [?p1, ?p2] \<longrightarrow>
      list_index ?urls (part_number ?p2 - 1) = Inr (?urls ! nat (part_number ?p2 - 1))"
    by blast
  then have "list_index ?urls (part_number ?p2 - 1) = Inr ''https://store/2''"
    by simp
  with n nums split_small_file show ?thesis by blast
qed

text \<open>
  Claim C10: for a file that is a header line and nothing else, \<open>split_file\<close> (on an
  entered splitter) yields exactly one part, numbered 1, whose content is exactly the
  header line, for every requested part count.
\<close>

theorem header_only_file:
  "split_file (enter sfx sp) [header] n =
     Inr [\<lparr>part_number = 1, written_lines = [HeaderLine header]\<rparr>] \<and>
   file_lines \<lparr>part_number = 1, written_lines = [HeaderLine header]\<rparr> = [header]"
  by (simp add: split_file_def enter_def split_rows_def first_part_def finish_def file_lines_def)

section \<open>The upload: arithmetic, sizes and the trace\<close>

lemma ceil_div:
  fixes a b :: int
  assumes "0 < b"
  shows "(a + b - 1) div b = \<lceil>real_of_int a / real_of_int b\<rceil>"
proof -
  define q where "q = a div b"
  define r where "r = a mod b"
  have a: "a = b * q + r" by (simp add: q_def r_def)
  have r: "0 \<le> r" "r < b" using assms by (simp_all add: r_def)
  have "(a + b - 1) div b = - (- a div b)"
  proof (cases "r = 0")
    case True
    have "a + b - 1 = b * q + (b - 1)" using a True by simp
    then have "(a + b - 1) div b = q"
      by (rule int_div_pos_eq [where r = "b - 1"]) (use assms in simp_all)
    moreover have "- a = b * (- q) + 0" using a True by simp
    then have "- a div b = - q"
      by (rule int_div_pos_eq [where r = 0]) (use assms in simp_all)
    ultimately show ?thesis by simp
  next
    case False
    have "a + b - 1 = b * (q + 1) + (r - 1)" using a by (simp add: algebra_simps)
    then have "(a + b - 1) div b = q + 1"
      by (rule int_div_pos_eq [where r = "r - 1"]) (use r False in simp_all)
    moreover have "- a = b * (- (q + 1)) + (b - r)" using a by (simp add: algebra_simps)
    then have "- a div b = - (q + 1)"
      by (rule int_div_pos_eq [where r = "b - r"]) (use r False in simp_all)
    ultimately show ?thesis by simp
  qed
  then show ?thesis by (simp add: ceiling_divide_eq_div)
qed

lemma utf8_len_filled: "utf8_len (replicate n 97 @ [10]) = int n + 1"
  by (simp add: utf8_len_def sum_list_replicate cp_len_def)

lemma utf8_len_long_row: "utf8_len long_row = 20971520"
  unfolding long_row_def by (simp add: utf8_len_filled)

lemma utf8_len_last_row: "utf8_len last_row = 20971517"
  unfolding last_row_def by (simp add: utf8_len_filled)

lemma utf8_len_id: "utf8_len (ascii ''id\<newline>'') = 3"
  by (simp add: ascii_def utf8_len_def cp_len_def)

lemma getsize_file_120MiB: "getsize file_120MiB = 125829120"
  by (simp add: getsize_def file_120MiB_def utf8_len_long_row utf8_len_last_row utf8_len_id)

lemma split_file_120MiB:
  "split_file (enter ''0'' (CSVFileSplitter_init 52428800)) file_120MiB 6 =
     Inr [\<lparr>part_number = 1,
           written_lines = [HeaderLine (ascii ''id\<newline>''), RowLine long_row, RowLine long_row]\<rparr>,
          \<lparr>part_number = 2, written_lines = [RowLine long_row, RowLine long_row]\<rparr>,
          \<lparr>part_number = 3, written_lines = [RowLine long_row, RowLine last_row]\<rparr>]"
  by (simp add: split_file_def enter_def CSVFileSplitter_init_def file_120MiB_def split_rows_def
      first_part_def process_row_def finish_def Let_def
      utf8_len_long_row utf8_len_last_row utf8_len_id)

lemma list_index_store_urls:
  "list_index store_urls 0 = Inr ''https://store/1''"
  "list_index store_urls 1 = Inr ''https://store/2''"
  "list_index store_urls 2 = Inr ''https://store/3''"
  by (simp_all add: list_index_def store_urls_def)

lemma multipart_120MiB:
  "multipart_upload (LoadDataClient_init 52428800) (store_backend statuses)
     ''p1'' file_120MiB 6 ''ds'' ''full'' [] new_world =
   (Inr \<lparr>job_id = ''j1''\<rparr>,
     \<lparr>events =
        [DataUpload ''p1'' (Some 6),
         Put ''https://store/1'' (GzipCompressed [ascii ''id\<newline>'', long_row, long_row]),
         Put ''https://store/2'' (GzipCompressed [long_row, long_row]),
         Put ''https://store/3'' (GzipCompressed [long_row, last_row]),
         CompleteMultipartUpload ''p1'' ''u1''
           \<lparr>request_id = ''u1'', uploadId = ''m1'',
            partETags = [\<lparr>eTag = ''tag:https://store/1'', partNumber = 1\<rparr>,
                         \<lparr>eTag = ''tag:https://store/2'', partNumber = 2\<rparr>,
                         \<lparr>eTag = ''tag:https://store/3'', partNumber = 3\<rparr>]\<rparr>,
         SubmitJobExecution
           (create_data_pull_job_request ''p1'' ''ds'' ''full'' (Some ''/uploads/u1'') [])],
      fetches = 0, clock_reads = 0\<rparr>)"
proof -
  have split: "split_file (enter (mkdtemp_suffix (store_backend statuses))
       (CSVFileSplitter_init (client_chunk_size (LoadDataClient_init 52428800)))) file_120MiB 6 =
     Inr [\<lparr>part_number = 1,
           written_lines = [HeaderLine (ascii ''id\<newline>''), RowLine long_row, RowLine long_row]\<rparr>,
          \<lparr>part_number = 2, written_lines = [RowLine long_row, RowLine long_row]\<rparr>,
          \<lparr>part_number = 3, written_lines = [RowLine long_row, RowLine last_row]\<rparr>]"
    using split_file_120MiB by (simp add: store_backend_def LoadDataClient_init_def)
  show ?thesis
    unfolding multipart_upload_def Let_def split
    by (simp add: store_backend_def store_instance_def list_index_store_urls upload_part_def
        raise_for_status_def log_event_def new_world_def file_lines_def
        get_file_uri_from_response_def submit_data_pull_request_def Let_def)
qed

lemma single_part_small:
  "single_part_upload (store_backend statuses) ''p1'' [ascii ''id\<newline>'', ascii ''aaaaaaa\<newline>'']
     ''ds'' ''full'' [] new_world =
   (Inr \<lparr>job_id = ''j1''\<rparr>,
    \<lparr>events = [DataUpload ''p1'' None,
                Put ''https://store/0'' (RawFile [ascii ''id\<newline>'', ascii ''aaaaaaa\<newline>'']),
                SubmitJobExecution
                  (create_data_pull_job_request ''p1'' ''ds'' ''full'' (Some ''/uploads/u1'') [])],
     fetches = 0, clock_reads = 0\<rparr>)"
  by (simp add: single_part_upload_def store_backend_def store_instance_def upload_file_def
      raise_for_status_def log_event_def new_world_def get_file_uri_from_response_def
      submit_data_pull_request_def Let_def)

lemma upload_by_size_small:
  "upload_by_size (LoadDataClient_init 52428800) (store_backend statuses) ''p1''
     [ascii ''id\<newline>'', ascii ''aaaaaaa\<newline>''] ''ds'' ''full'' [] new_world =
   (Inr \<lparr>job_id = ''j1''\<rparr>,
    \<lparr>events = [DataUpload ''p1'' None,
                Put ''https://store/0'' (RawFile [ascii ''id\<newline>'', ascii ''aaaaaaa\<newline>'']),
                SubmitJobExecution
                  (create_data_pull_job_request ''p1'' ''ds'' ''full'' (Some ''/uploads/u1'') [])],
     fetches = 0, clock_reads = 0\<rparr>)"
proof -
  have "getsize [ascii ''id\<newline>'', ascii ''aaaaaaa\<newline>''] \<le>
      client_chunk_size (LoadDataClient_init 52428800)"
    by (simp add: getsize_def ascii_def utf8_len_def cp_len_def LoadDataClient_init_def)
  then show ?thesis
    by (simp add: upload_by_size_def Let_def single_part_small)
qed

subsection \<open>The loop over the parts\<close>











section \<open>Polling: unfolding the loop\<close>

lemma poll_loop_succeeded:
  assumes "get_job_status env jid (fetches w) = Inr js" and "status js = ''SUCCEEDED''"
  shows "poll_loop env jid poll_interval timeout start_time w = Some (Inr True, after_fetch jid w)"
  using assms by (subst poll_loop.simps) (simp add: after_fetch_def)

lemma poll_loop_failed:
  assumes "get_job_status env jid (fetches w) = Inr js" and "status js = ''FAILED''"
  shows "poll_loop env jid poll_interval timeout start_time w = Some (Inr False, after_fetch jid w)"
  using assms by (subst poll_loop.simps) (simp add: after_fetch_def)

lemma poll_loop_running:
  assumes "get_job_status env jid (fetches w) = Inr js" and "\<not> terminal js"
    and "0 \<le> poll_interval"
  shows "poll_loop env jid poll_interval None start_time w =
         poll_loop env jid poll_interval None start_time (after_wait jid poll_interval w)"
  using assms
  by (subst poll_loop.simps)
     (simp add: after_fetch_def after_wait_def terminal_def check_timeout_def sleep_def)

lemma fetches_after_wait: "fetches (after_wait jid poll_interval w) = Suc (fetches w)"
  by (simp add: after_wait_def after_fetch_def log_event_def)

lemma fetches_funpow: "fetches ((after_wait jid poll_interval ^^ k) w) = fetches w + k"
  by (induction k) (simp_all add: fetches_after_wait)

lemma poll_loop_running_steps:
  assumes "\<forall>i<k. \<exists>js. get_job_status env jid (fetches w + i) = Inr js \<and> \<not> terminal js"
    and "0 \<le> poll_interval"
  shows "poll_loop env jid poll_interval None start_time w =
         poll_loop env jid poll_interval None start_time ((after_wait jid poll_interval ^^ k) w)"
  using assms(1)
proof (induction k)
  case 0
  then show ?case by simp
next
  case (Suc k)
  let ?wk = "(after_wait jid poll_interval ^^ k) w"
  from Suc.prems have "\<forall>i<k. \<exists>js. get_job_status env jid (fetches w + i) = Inr js \<and> \<not> terminal js"
    by simp
  from Suc.IH [OF this] have first: "poll_loop env jid poll_interval None start_time w =
      poll_loop env jid poll_interval None start_time ?wk" .
  from Suc.prems obtain js where js: "get_job_status env jid (fetches w + k) = Inr js"
    "\<not> terminal js" by blast
  then have "get_job_status env jid (fetches ?wk) = Inr js" by (simp add: fetches_funpow)
  from poll_loop_running [OF this js(2) assms(2)] first show ?case by simp
qed

lemma poll_loop_times_out:
  assumes never: "\<forall>k. \<exists>js. get_job_status env jid k = Inr js \<and> \<not> terminal js"
    and "0 \<le> poll_interval" and "t \<noteq> 0"
    and "time_time env (clock_reads w + m) - start_time > real_of_int t"
  shows "\<exists>w'. poll_loop env jid poll_interval (Some t) start_time w =
           Some (Inl (TimeoutError jid t), w')"
  using assms(4)
proof (induction m arbitrary: w)
  case 0
  from never obtain js where js: "get_job_status env jid (fetches w) = Inr js" "\<not> terminal js"
    by blast
  with 0 assms(3) show ?case
    by (subst poll_loop.simps)
       (simp add: terminal_def check_timeout_def log_event_def Let_def)
next
  case (Suc m)
  from never obtain js where js: "get_job_status env jid (fetches w) = Inr js" "\<not> terminal js"
    by blast
  show ?case
  proof (cases "time_time env (clock_reads w) - start_time > real_of_int t")
    case True
    with js assms(3) show ?thesis
      by (subst poll_loop.simps)
         (simp add: terminal_def check_timeout_def log_event_def Let_def)
  next
    case False
    let ?w3 = "log_event (Sleep poll_interval) ((after_fetch jid w)\<lparr>clock_reads := Suc (clock_reads w)\<rparr>)"
    have step: "poll_loop env jid poll_interval (Some t) start_time w =
        poll_loop env jid poll_interval (Some t) start_time ?w3"
      using js assms(2,3) False
      by (subst poll_loop.simps)
         (simp add: terminal_def check_timeout_def sleep_def log_event_def after_fetch_def Let_def)
    have "clock_reads ?w3 = Suc (clock_reads w)"
      by (simp add: log_event_def after_fetch_def)
    with Suc.prems have "time_time env (clock_reads ?w3 + m) - start_time > real_of_int t"
      by simp
    from Suc.IH [OF this] step show ?thesis by simp
  qed
qed

lemma terminal_simps:
  "\<not> terminal running" "terminal succeeded" "terminal (failed_with msg)"
  by (simp_all add: terminal_def running_def succeeded_def failed_with_def)

section \<open>Claims about the upload\<close>

text \<open>
  Claim C2: for a file of 120 MiB with a target part size of 20 MiB and a single-part
  threshold of 50 MiB, \<open>upload_data\<close> computes 6 parts, asks the splitter for 6 parts,
  calls the part uploader 6 times and completes with 6 pairs. The code computes 6 and
  asks the backend and the splitter for 6, but it builds the splitter with
  \<open>self.chunk_size\<close>, the 50 MiB threshold, as the byte budget of a part, not with the
  20 MiB target part size the count was computed from. On a file of 120 MiB with rows
  of 20 MiB the splitter therefore yields 3 parts: 3 PUT requests are made and the
  completion request carries 3 pairs, numbered 1 to 3.
\<close>

theorem upload_120MiB_three_parts:
  "getsize file_120MiB = 125829120 \<and>
   upload_data (LoadDataClient_init 52428800)
     (store_backend (always succeeded))
     ''p1'' (Some file_120MiB) ''ds'' ''full'' False [] new_world =
   Some (Inr \<lparr>job_id = ''j1''\<rparr>,
     \<lparr>events =
        [DataUpload ''p1'' (Some 6),
         Put ''https://store/1'' (GzipCompressed [ascii ''id\<newline>'', long_row, long_row]),
         Put ''https://store/2'' (GzipCompressed [long_row, long_row]),
         Put ''https://store/3'' (GzipCompressed [long_row, last_row]),
         CompleteMultipartUpload ''p1'' ''u1''
           \<lparr>request_id = ''u1'', uploadId = ''m1'',
            partETags = [\<lparr>eTag = ''tag:https://store/1'', partNumber = 1\<rparr>,
                         \<lparr>eTag = ''tag:https://store/2'', partNumber = 2\<rparr>,
                         \<lparr>eTag = ''tag:https://store/3'', partNumber = 3\<rparr>]\<rparr>,
         SubmitJobExecution
           (create_data_pull_job_request ''p1'' ''ds'' ''full'' (Some ''/uploads/u1'') [])],
      fetches = 0, clock_reads = 0\<rparr>)"
proof -
  have parts: "(getsize file_120MiB + target_part_size (LoadDataClient_init 52428800) - 1)
      div target_part_size (LoadDataClient_init 52428800) = 6"
    by (simp add: getsize_file_120MiB LoadDataClient_init_def)
  have big: "\<not> getsize file_120MiB \<le> client_chunk_size (LoadDataClient_init 52428800)"
    by (simp add: getsize_file_120MiB LoadDataClient_init_def)
  have tps: "target_part_size (LoadDataClient_init 52428800) \<noteq> 0"
    by (simp add: LoadDataClient_init_def)
  have "upload_data (LoadDataClient_init 52428800)
     (store_backend (always succeeded))
     ''p1'' (Some file_120MiB) ''ds'' ''full'' False [] new_world =
     wait_for_job (store_backend (always succeeded)) False
      (multipart_upload (LoadDataClient_init 52428800)
        (store_backend (always succeeded))
        ''p1'' file_120MiB 6 ''ds'' ''full'' [] new_world)"
    using big tps by (simp add: upload_data_def upload_by_size_def Let_def parts)
  then show ?thesis
    by (simp add: multipart_120MiB wait_for_job_def getsize_file_120MiB)
qed




text \<open>
  Claim C6: \<open>upload_data\<close>, for an existing file and a valid mode, takes the
  single-part path when the size of the file is exactly the threshold, and for a file
  one byte larger the multipart path with \<open>ceil(size / target part size)\<close> parts (the
  target part size being positive, as \<open>__init__\<close> sets it).
\<close>

theorem strategy_boundary:
  assumes "md = ''full'' \<or> md = ''incremental''"
  shows "(getsize f = client_chunk_size c \<longrightarrow>
            upload_data c env project_id (Some f) dataset_name md poll_job csv_opts w =
              wait_for_job env poll_job
                (single_part_upload env project_id f dataset_name md csv_opts w)) \<and>
         (getsize f = client_chunk_size c + 1 \<longrightarrow> 0 < target_part_size c \<longrightarrow>
            upload_data c env project_id (Some f) dataset_name md poll_job csv_opts w =
              wait_for_job env poll_job
                (multipart_upload c env project_id f
                   \<lceil>real_of_int (getsize f) / real_of_int (target_part_size c)\<rceil>
                   dataset_name md csv_opts w))"
proof -
  have data: "upload_data c env project_id (Some f) dataset_name md poll_job csv_opts w =
      wait_for_job env poll_job (upload_by_size c env project_id f dataset_name md csv_opts w)"
    using assms by (auto simp: upload_data_def)
  have single: "upload_by_size c env project_id f dataset_name md csv_opts w =
      single_part_upload env project_id f dataset_name md csv_opts w"
    if "getsize f = client_chunk_size c"
    using that by (simp add: upload_by_size_def)
  have multi: "upload_by_size c env project_id f dataset_name md csv_opts w =
      multipart_upload c env project_id f
        \<lceil>real_of_int (getsize f) / real_of_int (target_part_size c)\<rceil>
        dataset_name md csv_opts w"
    if "getsize f = client_chunk_size c + 1" and "0 < target_part_size c"
  proof -
    have "\<not> getsize f \<le> client_chunk_size c" using that(1) by simp
    moreover have "target_part_size c \<noteq> 0" using that(2) by simp
    ultimately show ?thesis
      by (simp only: upload_by_size_def Let_def if_False ceil_div [OF that(2)])
  qed
  from data single multi show ?thesis by simp
qed

theorem strategy_boundary_witness:
  "getsize [ascii ''ab\<newline>'', ascii ''c\<newline>''] = client_chunk_size (LoadDataClient_init 5) \<and>
   upload_data (LoadDataClient_init 5) (store_backend (always succeeded)) ''p1''
       (Some [ascii ''ab\<newline>'', ascii ''c\<newline>'']) ''ds'' ''full'' False [] new_world =
     wait_for_job (store_backend (always succeeded)) False
       (single_part_upload (store_backend (always succeeded)) ''p1'' [ascii ''ab\<newline>'', ascii ''c\<newline>'']
          ''ds'' ''full'' [] new_world) \<and>
   getsize [ascii ''ab\<newline>'', ascii ''cd\<newline>''] = client_chunk_size (LoadDataClient_init 5) + 1 \<and>
   upload_data (LoadDataClient_init 5) (store_backend (always succeeded)) ''p1''
       (Some [ascii ''ab\<newline>'', ascii ''cd\<newline>'']) ''ds'' ''full'' False [] new_world =
     wait_for_job (store_backend (always succeeded)) False
       (multipart_upload (LoadDataClient_init 5) (store_backend (always succeeded)) ''p1''
          [ascii ''ab\<newline>'', ascii ''cd\<newline>''] 1 ''ds'' ''full'' [] new_world)"
proof -
  have md: "''full'' = ''full'' \<or> ''full'' = ''incremental''" by simp
  have s5: "getsize [ascii ''ab\<newline>'', ascii ''c\<newline>''] = client_chunk_size (LoadDataClient_init 5)"
    by (simp add: getsize_def ascii_def utf8_len_def cp_len_def LoadDataClient_init_def)
  have s6: "getsize [ascii ''ab\<newline>'', ascii ''cd\<newline>''] = client_chunk_size (LoadDataClient_init 5) + 1"
    by (simp add: getsize_def ascii_def utf8_len_def cp_len_def LoadDataClient_init_def)
  have tps: "0 < target_part_size (LoadDataClient_init 5)"
    by (simp add: LoadDataClient_init_def)
  have ceil: "\<lceil>real_of_int (getsize [ascii ''ab\<newline>'', ascii ''cd\<newline>'']) /
      real_of_int (target_part_size (LoadDataClient_init 5))\<rceil> = 1"
    by (simp add: getsize_def ascii_def utf8_len_def cp_len_def LoadDataClient_init_def)
  from strategy_boundary [OF md, of "[ascii ''ab\<newline>'', ascii ''c\<newline>'']" "LoadDataClient_init 5"
      "store_backend (always succeeded)" "''p1''" "''ds''" False "[]" new_world] s5
  have single: "upload_data (LoadDataClient_init 5) (store_backend (always succeeded)) ''p1''
       (Some [ascii ''ab\<newline>'', ascii ''c\<newline>'']) ''ds'' ''full'' False [] new_world =
     wait_for_job (store_backend (always succeeded)) False
       (single_part_upload (store_backend (always succeeded)) ''p1'' [ascii ''ab\<newline>'', ascii ''c\<newline>'']
          ''ds'' ''full'' [] new_world)"
    by blast
  from strategy_boundary [OF md, of "[ascii ''ab\<newline>'', ascii ''cd\<newline>'']" "LoadDataClient_init 5"
      "store_backend (always succeeded)" "''p1''" "''ds''" False "[]" new_world] s6 tps
  have "upload_data (LoadDataClient_init 5) (store_backend (always succeeded)) ''p1''
       (Some [ascii ''ab\<newline>'', ascii ''cd\<newline>'']) ''ds'' ''full'' False [] new_world =
     wait_for_job (store_backend (always succeeded)) False
       (multipart_upload (LoadDataClient_init 5) (store_backend (always succeeded)) ''p1''
          [ascii ''ab\<newline>'', ascii ''cd\<newline>'']
          \<lceil>real_of_int (getsize [ascii ''ab\<newline>'', ascii ''cd\<newline>'']) /
            real_of_int (target_part_size (LoadDataClient_init 5))\<rceil>
          ''ds'' ''full'' [] new_world)"
    by blast
  then have multi: "upload_data (LoadDataClient_init 5) (store_backend (always succeeded)) ''p1''
       (Some [ascii ''ab\<newline>'', ascii ''cd\<newline>'']) ''ds'' ''full'' False [] new_world =
     wait_for_job (store_backend (always succeeded)) False
       (multipart_upload (LoadDataClient_init 5) (store_backend (always succeeded)) ''p1''
          [ascii ''ab\<newline>'', ascii ''cd\<newline>''] 1 ''ds'' ''full'' [] new_world)"
    by (simp only: ceil)
  from s5 single s6 multi show ?thesis by blast
qed

text \<open>
  Claim C7, as amended: when \<open>upload_data\<close> waits for the job and the first terminal
  status fetched is \<open>FAILED\<close>, it raises \<open>Exception('Job <id> failed')\<close>. The error
  names the job id and is the same whatever message the backend sent; the message is
  only logged by \<open>poll_job_status\<close>.
\<close>

theorem failed_job_error:
  assumes "md = ''full'' \<or> md = ''incremental''"
    and "upload_by_size c env project_id f dataset_name md csv_opts w = (Inr job, w1)"
    and "\<forall>i<k. \<exists>js. get_job_status env (job_id job) (fetches w1 + i) = Inr js \<and> \<not> terminal js"
    and "get_job_status env (job_id job) (fetches w1 + k) = Inr \<lparr>status = ''FAILED'', message = m\<rparr>"
  shows "\<exists>w2. upload_data c env project_id (Some f) dataset_name md True csv_opts w =
           Some (Inl (Exception (''Job '' @ job_id job @ '' failed'')), w2)"
proof -
  let ?w1 = "w1\<lparr>clock_reads := Suc (clock_reads w1)\<rparr>"
  let ?start = "time_time env (clock_reads w1)"
  let ?wk = "(after_wait (job_id job) 5 ^^ k) ?w1"
  have "\<forall>i<k. \<exists>js. get_job_status env (job_id job) (fetches ?w1 + i) = Inr js \<and> \<not> terminal js"
    using assms(3) by simp
  then have run: "poll_loop env (job_id job) 5 None ?start ?w1 =
      poll_loop env (job_id job) 5 None ?start ?wk"
    by (rule poll_loop_running_steps) simp
  have "get_job_status env (job_id job) (fetches ?wk) = Inr \<lparr>status = ''FAILED'', message = m\<rparr>"
    using assms(4) by (simp add: fetches_funpow)
  then have "poll_loop env (job_id job) 5 None ?start ?wk =
      Some (Inr False, after_fetch (job_id job) ?wk)"
    by (rule poll_loop_failed) simp
  with run have "poll_job_status env (job_id job) 5 None w1 =
      Some (Inr False, after_fetch (job_id job) ?wk)"
    by (simp add: poll_job_status_def Let_def)
  then have "upload_data c env project_id (Some f) dataset_name md True csv_opts w =
      Some (Inl (Exception (''Job '' @ job_id job @ '' failed'')), after_fetch (job_id job) ?wk)"
    using assms(1,2) by (auto simp: upload_data_def wait_for_job_def)
  then show ?thesis by blast
qed

theorem failed_job_error_witness:
  "(''full'' = ''full'' \<or> ''full'' = ''incremental'') \<and>
   get_job_status (store_backend (always (failed_with ''disk quota exceeded''))) ''j1'' 0 =
     Inr \<lparr>status = ''FAILED'', message = Some ''disk quota exceeded''\<rparr> \<and>
   (\<exists>w2. upload_data (LoadDataClient_init 52428800)
            (store_backend (always (failed_with ''disk quota exceeded''))) ''p1''
            (Some [ascii ''id\<newline>'', ascii ''aaaaaaa\<newline>'']) ''ds'' ''full'' True [] new_world =
          Some (Inl (Exception (''Job '' @ ''j1'' @ '' failed'')), w2))"
proof -
  let ?env = "store_backend (always (failed_with ''disk quota exceeded''))"
  let ?w1 = "\<lparr>events = [DataUpload ''p1'' None,
                Put ''https://store/0'' (RawFile [ascii ''id\<newline>'', ascii ''aaaaaaa\<newline>'']),
                SubmitJobExecution
                  (create_data_pull_job_request ''p1'' ''ds'' ''full'' (Some ''/uploads/u1'') [])],
     fetches = 0, clock_reads = 0\<rparr>"
  have md: "''full'' = ''full'' \<or> ''full'' = ''incremental''" by simp
  have run: "\<forall>i<(0::nat). \<exists>js. get_job_status ?env (job_id \<lparr>job_id = ''j1''\<rparr>) (fetches ?w1 + i) = Inr js \<and>
      \<not> terminal js"
    by simp
  have st: "get_job_status ?env ''j1'' 0 =
      Inr \<lparr>status = ''FAILED'', message = Some ''disk quota exceeded''\<rparr>"
    by (simp add: store_backend_def always_def failed_with_def)
  then have failed: "get_job_status ?env (job_id \<lparr>job_id = ''j1''\<rparr>) (fetches ?w1 + 0) =
      Inr \<lparr>status = ''FAILED'', message = Some ''disk quota exceeded''\<rparr>"
    by simp
  from failed_job_error [OF md upload_by_size_small run failed] md st
  show ?thesis by simp
qed

text \<open>
  Claim C7 as stated says the error contains the backend's message. For a job that
  failed with the message \<open>disk quota exceeded\<close> the error is \<open>Job j1 failed\<close>, in
  which the message does not occur.
\<close>

theorem failed_job_error_hides_message:
  "upload_data (LoadDataClient_init 52428800)
     (store_backend (always (failed_with ''disk quota exceeded''))) ''p1''
     (Some [ascii ''id\<newline>'', ascii ''aaaaaaa\<newline>'']) ''ds'' ''full'' True [] new_world =
   Some (Inl (Exception ''Job j1 failed''),
     \<lparr>events = [DataUpload ''p1'' None,
                Put ''https://store/0'' (RawFile [ascii ''id\<newline>'', ascii ''aaaaaaa\<newline>'']),
                SubmitJobExecution
                  (create_data_pull_job_request ''p1'' ''ds'' ''full'' (Some ''/uploads/u1'') []),
                GetJobStatus ''j1'' ''dataPull''],
      fetches = 1, clock_reads = 1\<rparr>) \<and>
   \<not> sublist ''disk quota exceeded'' ''Job j1 failed''"
proof -
  let ?env = "store_backend (always (failed_with ''disk quota exceeded''))"
  have st: "get_job_status ?env ''j1'' 0 = Inr (failed_with ''disk quota exceeded'')"
    by (simp add: store_backend_def always_def)
  have "poll_job_status ?env ''j1'' 5 None
     \<lparr>events = [DataUpload ''p1'' None,
                Put ''https://store/0'' (RawFile [ascii ''id\<newline>'', ascii ''aaaaaaa\<newline>'']),
                SubmitJobExecution
                  (create_data_pull_job_request ''p1'' ''ds'' ''full'' (Some ''/uploads/u1'') [])],
      fetches = 0, clock_reads = 0\<rparr> =
     Some (Inr False,
      \<lparr>events = [DataUpload ''p1'' None,
                Put ''https://store/0'' (RawFile [ascii ''id\<newline>'', ascii ''aaaaaaa\<newline>'']),
                SubmitJobExecution
                  (create_data_pull_job_request ''p1'' ''ds'' ''full'' (Some ''/uploads/u1'') []),
                GetJobStatus ''j1'' ''dataPull''],
      fetches = 1, clock_reads = 1\<rparr>)"
    unfolding poll_job_status_def Let_def
    by (subst poll_loop.simps)
       (simp add: store_backend_def always_def failed_with_def log_event_def)
  then have "upload_data (LoadDataClient_init 52428800) ?env ''p1''
     (Some [ascii ''id\<newline>'', ascii ''aaaaaaa\<newline>'']) ''ds'' ''full'' True [] new_world =
   Some (Inl (Exception ''Job j1 failed''),
     \<lparr>events = [DataUpload ''p1'' None,
                Put ''https://store/0'' (RawFile [ascii ''id\<newline>'', ascii ''aaaaaaa\<newline>'']),
                SubmitJobExecution
                  (create_data_pull_job_request ''p1'' ''ds'' ''full'' (Some ''/uploads/u1'') []),
                GetJobStatus ''j1'' ''dataPull''],
      fetches = 1, clock_reads = 1\<rparr>)"
    by (simp add: upload_data_def wait_for_job_def upload_by_size_small)
  moreover have "\<not> sublist ''disk quota exceeded'' ''Job j1 failed''"
    by code_simp
  ultimately show ?thesis by blast
qed

text \<open>
  Claim C8: with the statuses \<open>RUNNING\<close>, \<open>RUNNING\<close>, \<open>SUCCEEDED\<close> and an interval of 0
  (no timeout), \<open>poll_job_status\<close> returns \<open>True\<close> after exactly 3 fetches, with a
  sleep of 0 seconds between them. With a timeout of 1 and statuses that never become
  terminal it raises \<open>TimeoutError\<close>, for any interval that \<open>sleep\<close> accepts, provided
  the clock, read once in each round, at some round shows more than 1 second since the
  start; the loop has no other exit.
\<close>

theorem poll_job_status_scenarios:
  "(get_job_status env jid (fetches w) = Inr js0 \<and> status js0 = ''RUNNING'' \<and>
    get_job_status env jid (fetches w + 1) = Inr js1 \<and> status js1 = ''RUNNING'' \<and>
    get_job_status env jid (fetches w + 2) = Inr js2 \<and> status js2 = ''SUCCEEDED'' \<longrightarrow>
    poll_job_status env jid 0 None w =
      Some (Inr True,
        \<lparr>events = events w @
           [GetJobStatus jid ''dataPull'', Sleep 0, GetJobStatus jid ''dataPull'', Sleep 0,
            GetJobStatus jid ''dataPull''],
         fetches = fetches w + 3, clock_reads = Suc (clock_reads w)\<rparr>)) \<and>
   ((\<forall>k. \<exists>js. get_job_status env jid k = Inr js \<and> \<not> terminal js) \<and> 0 \<le> poll_interval \<and>
    (\<exists>m. time_time env (Suc (clock_reads w) + m) - time_time env (clock_reads w) > 1) \<longrightarrow>
    (\<exists>w'. poll_job_status env jid poll_interval (Some 1) w =
            Some (Inl (TimeoutError jid 1), w')))"
proof (intro conjI impI)
  assume a: "get_job_status env jid (fetches w) = Inr js0 \<and> status js0 = ''RUNNING'' \<and>
    get_job_status env jid (fetches w + 1) = Inr js1 \<and> status js1 = ''RUNNING'' \<and>
    get_job_status env jid (fetches w + 2) = Inr js2 \<and> status js2 = ''SUCCEEDED''"
  let ?w0 = "w\<lparr>clock_reads := Suc (clock_reads w)\<rparr>"
  let ?start = "time_time env (clock_reads w)"
  have "\<forall>i<2. \<exists>js. get_job_status env jid (fetches ?w0 + i) = Inr js \<and> \<not> terminal js"
  proof (intro allI impI)
    fix i :: nat assume "i < 2"
    then have "i = 0 \<or> i = 1" by auto
    with a show "\<exists>js. get_job_status env jid (fetches ?w0 + i) = Inr js \<and> \<not> terminal js"
      by (auto simp: terminal_def)
  qed
  then have "poll_loop env jid 0 None ?start ?w0 =
      poll_loop env jid 0 None ?start ((after_wait jid 0 ^^ 2) ?w0)"
    by (rule poll_loop_running_steps) simp
  also have "\<dots> = Some (Inr True, after_fetch jid ((after_wait jid 0 ^^ 2) ?w0))"
    using a by (intro poll_loop_succeeded [where js = js2]) (simp_all add: fetches_funpow)
  also have "after_fetch jid ((after_wait jid 0 ^^ 2) ?w0) =
      \<lparr>events = events w @
           [GetJobStatus jid ''dataPull'', Sleep 0, GetJobStatus jid ''dataPull'', Sleep 0,
            GetJobStatus jid ''dataPull''],
         fetches = fetches w + 3, clock_reads = Suc (clock_reads w)\<rparr>"
    by (simp add: numeral_2_eq_2 after_wait_def after_fetch_def log_event_def)
  finally show "poll_job_status env jid 0 None w =
      Some (Inr True,
        \<lparr>events = events w @
           [GetJobStatus jid ''dataPull'', Sleep 0, GetJobStatus jid ''dataPull'', Sleep 0,
            GetJobStatus jid ''dataPull''],
         fetches = fetches w + 3, clock_reads = Suc (clock_reads w)\<rparr>)"
    by (simp add: poll_job_status_def Let_def)
next
  assume b: "(\<forall>k. \<exists>js. get_job_status env jid k = Inr js \<and> \<not> terminal js) \<and> 0 \<le> poll_interval \<and>
    (\<exists>m. time_time env (Suc (clock_reads w) + m) - time_time env (clock_reads w) > 1)"
  let ?w0 = "w\<lparr>clock_reads := Suc (clock_reads w)\<rparr>"
  from b obtain m where
    "time_time env (Suc (clock_reads w) + m) - time_time env (clock_reads w) > 1" by blast
  then have late: "time_time env (clock_reads ?w0 + m) - time_time env (clock_reads w) > real_of_int 1"
    by simp
  from b have never: "\<forall>k. \<exists>js. get_job_status env jid k = Inr js \<and> \<not> terminal js"
    and pi: "0 \<le> poll_interval" by simp_all
  have "(1::int) \<noteq> 0" by simp
  from poll_loop_times_out [OF never pi this late]
  show "\<exists>w'. poll_job_status env jid poll_interval (Some 1) w =
            Some (Inl (TimeoutError jid 1), w')"
    by (simp add: poll_job_status_def Let_def)
qed

theorem poll_job_status_scenarios_witness:
  "poll_job_status (store_backend running_twice) ''j1'' 0 None new_world =
      Some (Inr True,
        \<lparr>events = [GetJobStatus ''j1'' ''dataPull'', Sleep 0, GetJobStatus ''j1'' ''dataPull'',
                    Sleep 0, GetJobStatus ''j1'' ''dataPull''],
         fetches = 3, clock_reads = 1\<rparr>) \<and>
   (\<exists>w'. poll_job_status (store_backend (always running)) ''j1'' 5 (Some 1) new_world =
            Some (Inl (TimeoutError ''j1'' 1), w'))"
proof -
  have one: "get_job_status (store_backend running_twice) ''j1'' (fetches new_world) = Inr running \<and>
      status running = ''RUNNING'' \<and>
      get_job_status (store_backend running_twice) ''j1'' (fetches new_world + 1) = Inr running \<and>
      status running = ''RUNNING'' \<and>
      get_job_status (store_backend running_twice) ''j1'' (fetches new_world + 2) = Inr succeeded \<and>
      status succeeded = ''SUCCEEDED''"
    by (simp add: store_backend_def running_twice_def new_world_def running_def succeeded_def)
  have two: "(\<forall>k. \<exists>js. get_job_status (store_backend (always running)) ''j1'' k = Inr js \<and>
        \<not> terminal js) \<and> (0::int) \<le> 5 \<and>
      (\<exists>m. time_time (store_backend (always running)) (Suc (clock_reads new_world) + m) -
           time_time (store_backend (always running)) (clock_reads new_world) > 1)"
  proof (intro conjI)
    show "\<forall>k. \<exists>js. get_job_status (store_backend (always running)) ''j1'' k = Inr js \<and>
        \<not> terminal js"
      by (simp add: store_backend_def always_def terminal_simps)
    show "(0::int) \<le> 5" by simp
    have "time_time (store_backend (always running)) (Suc (clock_reads new_world) + 0) -
           time_time (store_backend (always running)) (clock_reads new_world) > 1"
      by (simp add: store_backend_def new_world_def)
    then show "\<exists>m. time_time (store_backend (always running)) (Suc (clock_reads new_world) + m) -
           time_time (store_backend (always running)) (clock_reads new_world) > 1" ..
  qed
  from poll_job_status_scenarios [of "store_backend running_twice" "''j1''" new_world
      running running succeeded] one
  have first: "poll_job_status (store_backend running_twice) ''j1'' 0 None new_world =
      Some (Inr True,
        \<lparr>events = events new_world @
           [GetJobStatus ''j1'' ''dataPull'', Sleep 0, GetJobStatus ''j1'' ''dataPull'', Sleep 0,
            GetJobStatus ''j1'' ''dataPull''],
         fetches = fetches new_world + 3, clock_reads = Suc (clock_reads new_world)\<rparr>)"
    by blast
  from poll_job_status_scenarios [of "store_backend (always running)" "''j1''" new_world
      _ _ _ 5] two
  have second: "\<exists>w'. poll_job_status (store_backend (always running)) ''j1'' 5 (Some 1) new_world =
            Some (Inl (TimeoutError ''j1'' 1), w')"
    by blast
  from first second show ?thesis by (simp add: new_world_def)
qed

end
